theory Spec2Isabelle
  imports Complex_Main
begin

section \<open>Python values, dictionaries and exceptions\<close>

text \<open>
  The alert-response pattern (\<^verbatim>\<open>pattern_alert_response.py\<close>) and the client
  (\<^verbatim>\<open>lightspeed_client.py\<close>) work on the values that \<^verbatim>\<open>response.json()\<close>
  returns: \<^verbatim>\<open>None\<close>, booleans, integers, floats, strings, lists and dictionaries with
  string keys. A float is its exact value (every finite double is a rational number),
  or one of the three special values that Python's JSON decoder also accepts.
\<close>

datatype pyfloat = Finite rat | PosInf | NegInf | NaN

datatype pyval =
    PNone
  | PBool bool
  | PInt int
  | PFloat pyfloat
  | PStr string
  | PList "pyval list"
  | PDict "(string \<times> pyval) list"

text \<open>
  A dictionary is an association list in insertion order, read with \<open>map_of\<close>.
  Exceptions raised by the dictionary operations of the pattern are values of \<open>exn\<close>;
  exceptions raised inside the HTTP layer are values of \<open>http_exn\<close>, which carry the
  text \<^verbatim>\<open>str(e)\<close>: \<open>RequestException\<close> stands for
  \<^verbatim>\<open>requests.exceptions.RequestException\<close> and its subclasses (\<^verbatim>\<open>ConnectionError\<close>
  for a refused connection or a failed name lookup, \<^verbatim>\<open>Timeout\<close>,
  \<^verbatim>\<open>JSONDecodeError\<close>), \<open>OtherException\<close> for every other instance of
  \<^verbatim>\<open>Exception\<close>. Interrupts and exits, which are not instances of
  \<^verbatim>\<open>Exception\<close>, are not part of the model.
\<close>

datatype http_exn = RequestException string | OtherException string

datatype exn = KeyError string | TypeError | AttributeError | Propagated http_exn

definition and_then :: "exn + 'a \<Rightarrow> ('a \<Rightarrow> exn + 'b) \<Rightarrow> exn + 'b" where
  "and_then r f = (case r of Inl e \<Rightarrow> Inl e | Inr v \<Rightarrow> f v)"

text \<open>\<^verbatim>\<open>d[k]\<close> and \<^verbatim>\<open>d.get(k, default)\<close> on a dictionary.\<close>

definition subscript :: "(string \<times> 'v) list \<Rightarrow> string \<Rightarrow> exn + 'v" where
  "subscript d k = (case map_of d k of None \<Rightarrow> Inl (KeyError k) | Some v \<Rightarrow> Inr v)"

definition get_default :: "(string \<times> 'v) list \<Rightarrow> string \<Rightarrow> 'v \<Rightarrow> 'v" where
  "get_default d k dflt = (case map_of d k of None \<Rightarrow> dflt | Some v \<Rightarrow> v)"

text \<open>\<^verbatim>\<open>needle in haystack\<close> on two strings: the substring test.\<close>

fun py_str_contains :: "string \<Rightarrow> string \<Rightarrow> bool" where
  "py_str_contains needle [] = (needle = [])"
| "py_str_contains needle (c # cs) =
     (take (length needle) (c # cs) = needle \<or> py_str_contains needle cs)"

text \<open>
  The same three operations on an arbitrary value, with a string key:
  \<^verbatim>\<open>k in v\<close> is the key test on a dictionary, membership on a list, the substring
  test on a string and a \<^verbatim>\<open>TypeError\<close> elsewhere; \<^verbatim>\<open>v[k]\<close> is a
  \<^verbatim>\<open>TypeError\<close> on everything but a dictionary; \<^verbatim>\<open>v.get\<close> is an
  \<^verbatim>\<open>AttributeError\<close> on everything but a dictionary.
\<close>

fun py_in :: "string \<Rightarrow> pyval \<Rightarrow> exn + bool" where
  "py_in k (PDict d) = Inr (map_of d k \<noteq> None)"
| "py_in k (PList l) = Inr (PStr k \<in> set l)"
| "py_in k (PStr s) = Inr (py_str_contains k s)"
| "py_in k v = Inl TypeError"

fun py_subscript :: "pyval \<Rightarrow> string \<Rightarrow> exn + pyval" where
  "py_subscript (PDict d) k = subscript d k"
| "py_subscript v k = Inl TypeError"

fun py_get :: "pyval \<Rightarrow> string \<Rightarrow> pyval \<Rightarrow> exn + pyval" where
  "py_get (PDict d) k dflt = Inr (get_default d k dflt)"
| "py_get v k dflt = Inl AttributeError"

text \<open>
  \<^verbatim>\<open>v > x\<close> for a float \<open>x\<close>. Python compares integers, booleans (which are the
  integers 0 and 1) and finite floats by their exact values; every comparison with
  \<^verbatim>\<open>nan\<close> is false; any other left operand raises \<^verbatim>\<open>TypeError\<close>.
\<close>

fun py_gt :: "pyval \<Rightarrow> rat \<Rightarrow> exn + bool" where
  "py_gt (PBool b) x = Inr ((if b then 1 else 0) > x)"
| "py_gt (PInt i) x = Inr (of_int i > x)"
| "py_gt (PFloat (Finite q)) x = Inr (q > x)"
| "py_gt (PFloat PosInf) x = Inr True"
| "py_gt (PFloat NegInf) x = Inr False"
| "py_gt (PFloat NaN) x = Inr False"
| "py_gt v x = Inl TypeError"

text \<open>
  The literal \<^verbatim>\<open>0.8\<close> denotes the double nearest to four fifths,
  \<open>3602879701896397 / 2^52\<close>; the JSON text \<^verbatim>\<open>0.8\<close> decodes to the same double.
\<close>

definition float_0_8 :: rat where
  "float_0_8 = 3602879701896397 / 4503599627370496"

text \<open>\<^verbatim>\<open>str(n)\<close> for an integer: its decimal digits, with a sign when negative.\<close>

definition digit_char :: "nat \<Rightarrow> char" where
  "digit_char n = ''0123456789'' ! n"

function str_nat :: "nat \<Rightarrow> string" where
  "str_nat n = (if n < 10 then [digit_char n] else str_nat (n div 10) @ [digit_char (n mod 10)])"
  by pat_completeness auto
termination
  by (relation "measure id") auto

declare str_nat.simps [simp del]

definition py_str_int :: "int \<Rightarrow> string" where
  "py_str_int i = (if i < 0 then CHR ''-'' # str_nat (nat (- i)) else str_nat (nat i))"

text \<open>\<^verbatim>\<open>s.rstrip('/')\<close>: the string without its trailing slashes.\<close>

definition rstrip_slash :: "string \<Rightarrow> string" where
  "rstrip_slash s = rev (dropWhile (\<lambda>c. c = CHR ''/'') (rev s))"


section \<open>The client: \<^verbatim>\<open>LightspeedClient\<close>\<close>

text \<open>
  The network is the environment of the client. A session is what
  \<^verbatim>\<open>self.session.post(url, json=payload, timeout=t)\<close> does: it raises, or it returns a
  response with a status code, a body text, and the outcome of \<^verbatim>\<open>response.json()\<close>
  (which raises on a body that is not JSON).
\<close>

record http_response =
  status_code :: int
  response_text :: string
  response_json :: "http_exn + pyval"

type_synonym payload = "string \<times> (string \<times> pyval) list"

type_synonym session = "string \<Rightarrow> payload \<Rightarrow> int \<Rightarrow> http_exn + http_response"

record LightspeedClient =
  server_url :: string
  timeout :: int
  session :: session

text \<open>\<^verbatim>\<open>__init__\<close>; the session object is supplied by the environment.\<close>

definition LightspeedClient_init :: "string \<Rightarrow> int \<Rightarrow> session \<Rightarrow> LightspeedClient" where
  "LightspeedClient_init url t s = \<lparr>server_url = rstrip_slash url, timeout = t, session = s\<rparr>"

definition error_response :: "string \<Rightarrow> pyval" where
  "error_response msg = PDict [(''error'', PStr msg)]"

text \<open>
  The call \<^verbatim>\<open>self.session.post(f"{self.server_url}/query", json=payload,
  timeout=self.timeout)\<close> of lines 55 to 64, with \<^verbatim>\<open>context or {}\<close> in the
  payload.
\<close>

definition post_query ::
  "LightspeedClient \<Rightarrow> string \<Rightarrow> (string \<times> pyval) list option \<Rightarrow> http_exn + http_response" where
  "post_query self question context =
     (let payload = (question, case context of None \<Rightarrow> [] | Some c \<Rightarrow> c) in
      session self (server_url self @ ''/query'') payload (timeout self))"

text \<open>The body of the \<^verbatim>\<open>try\<close> block of \<^verbatim>\<open>query\<close> (lines 55 to 69).\<close>

definition query_try ::
  "LightspeedClient \<Rightarrow> string \<Rightarrow> (string \<times> pyval) list option \<Rightarrow> http_exn + pyval" where
  "query_try self question context =
     (case post_query self question context of
        Inl e \<Rightarrow> Inl e
      | Inr response \<Rightarrow>
          if status_code response = 200 then response_json response
          else Inr (error_response
                 (''HTTP '' @ py_str_int (status_code response) @ '': '' @ response_text response)))"

text \<open>\<^verbatim>\<open>query\<close>: the \<^verbatim>\<open>try\<close> block with its two handlers (lines 70 to 73).\<close>

definition query ::
  "LightspeedClient \<Rightarrow> string \<Rightarrow> (string \<times> pyval) list option \<Rightarrow> http_exn + pyval" where
  "query self question context =
     (case query_try self question context of
        Inr v \<Rightarrow> Inr v
      | Inl (RequestException m) \<Rightarrow> Inr (error_response (''Request failed: '' @ m))
      | Inl (OtherException m) \<Rightarrow> Inr (error_response (''Unexpected error: '' @ m)))"


section \<open>The alert-response pattern\<close>

text \<open>
  \<^verbatim>\<open>extract_insights\<close>. The second argument of the model is the reading of the clock,
  \<^verbatim>\<open>datetime.now().isoformat()\<close>.
\<close>

type_synonym insights = "(string \<times> pyval) list"

definition extract_insights :: "string \<Rightarrow> pyval \<Rightarrow> exn + insights" where
  "extract_insights now response =
     and_then (py_in ''error'' response) (\<lambda>has_error.
       if has_error then
         and_then (py_subscript response ''error'') (\<lambda>message.
           Inr [(''status'', PStr ''error''), (''message'', message)])
       else
         and_then (py_get response ''answer'' (PStr '''')) (\<lambda>answer.
         and_then (py_get response ''confidence'' (PFloat (Finite 0))) (\<lambda>confidence.
         and_then (py_get response ''sources'' (PList [])) (\<lambda>sources.
         and_then (py_get response ''recommendations'' (PList [])) (\<lambda>recommendations.
           Inr [(''status'', PStr ''success''),
                (''timestamp'', PStr now),
                (''answer'', answer),
                (''confidence'', confidence),
                (''sources'', sources),
                (''recommendations'', recommendations)])))))"

text \<open>
  An alert is a dictionary with string keys and any values (\<^verbatim>\<open>Dict[str, Any]\<close>):
  \<^verbatim>\<open>alert['labels']\<close> and \<^verbatim>\<open>alert['annotations']\<close> are meant to be dictionaries, but
  may be any value, and so may the values they hold.
  \<open>build_context\<close> is the dictionary display of lines 70 to 75 of
  \<^verbatim>\<open>handle_prometheus_alert\<close>, \<open>build_question\<close> the formatted string of line 81.
\<close>

type_synonym alert = "(string \<times> pyval) list"

type_synonym query_context = "(string \<times> pyval) list"

definition build_context :: "alert \<Rightarrow> exn + query_context" where
  "build_context alert =
     and_then (subscript alert ''labels'') (\<lambda>labels1.
     and_then (py_subscript labels1 ''alertname'') (\<lambda>alert_name.
     and_then (subscript alert ''labels'') (\<lambda>labels2.
     and_then (py_get labels2 ''namespace'' (PStr ''default'')) (\<lambda>namespace.
     and_then (subscript alert ''labels'') (\<lambda>labels3.
     and_then (py_get labels3 ''severity'' (PStr ''warning'')) (\<lambda>severity.
     and_then (subscript alert ''annotations'') (\<lambda>annotations.
     and_then (py_get annotations ''description'' (PStr '''')) (\<lambda>description.
       Inr [(''alert_name'', alert_name),
            (''namespace'', namespace),
            (''severity'', severity),
            (''description'', description)]))))))))"

text \<open>
  A replacement field of a formatted string: a string stands for itself; the text of
  any other value is the one Python's \<^verbatim>\<open>format\<close> gives it, which the model takes as
  an argument, \<open>fmt\<close>.
\<close>

definition py_format :: "(pyval \<Rightarrow> string) \<Rightarrow> pyval \<Rightarrow> string" where
  "py_format fmt v = (case v of PStr s \<Rightarrow> s | _ \<Rightarrow> fmt v)"

definition build_question :: "query_context \<Rightarrow> (pyval \<Rightarrow> string) \<Rightarrow> exn + string" where
  "build_question context fmt =
     and_then (subscript context ''description'') (\<lambda>description.
       Inr (''Analyze this alert and suggest remediation: '' @ py_format fmt description))"

text \<open>
  The question and the context that lines 70 to 83 pass to \<^verbatim>\<open>client.query\<close>.
\<close>

definition build_query :: "alert \<Rightarrow> (pyval \<Rightarrow> string) \<Rightarrow> exn + string \<times> query_context" where
  "build_query alert fmt =
     and_then (build_context alert) (\<lambda>context.
     and_then (build_question context fmt) (\<lambda>question.
       Inr (question, context)))"

text \<open>
  Lines 88 to 112 of \<^verbatim>\<open>handle_prometheus_alert\<close>: the decision taken from the insights.
\<close>

type_synonym decision = "(string \<times> pyval) list"

definition decide :: "alert \<Rightarrow> insights \<Rightarrow> exn + decision" where
  "decide alert insights =
     and_then (subscript insights ''status'') (\<lambda>status.
       if status = PStr ''error'' then
         and_then (subscript insights ''message'') (\<lambda>message.
           Inr [(''action'', PStr ''error''), (''message'', message)])
       else
         and_then (subscript insights ''confidence'') (\<lambda>confidence.
         and_then (py_gt confidence float_0_8) (\<lambda>high.
           if high then
             and_then (subscript alert ''labels'') (\<lambda>labels.
             and_then (py_subscript labels ''alertname'') (\<lambda>alertname.
             and_then (subscript insights ''confidence'') (\<lambda>confidence'.
             and_then (subscript insights ''recommendations'') (\<lambda>recommendations.
             and_then (subscript insights ''answer'') (\<lambda>answer.
               Inr [(''action'', PStr ''auto_remediate''),
                    (''alert'', alertname),
                    (''confidence'', confidence'),
                    (''recommendations'', recommendations),
                    (''analysis'', answer)])))))
           else
             and_then (subscript alert ''labels'') (\<lambda>labels.
             and_then (py_subscript labels ''alertname'') (\<lambda>alertname.
             and_then (subscript insights ''confidence'') (\<lambda>confidence'.
               Inr [(''action'', PStr ''escalate''),
                    (''alert'', alertname),
                    (''confidence'', confidence'),
                    (''analysis'', PDict insights),
                    (''reason'', PStr ''Low confidence in automated remediation'')]))))))"

text \<open>
  \<^verbatim>\<open>handle_prometheus_alert\<close>, with the session of the client it creates, the
  reading of the clock and the formatting of values as further arguments. The client is
  created with the default timeout of 30.
\<close>

definition handle_prometheus_alert ::
  "alert \<Rightarrow> string \<Rightarrow> session \<Rightarrow> string \<Rightarrow> (pyval \<Rightarrow> string) \<Rightarrow> exn + decision" where
  "handle_prometheus_alert alert url s now fmt =
     and_then (build_query alert fmt) (\<lambda>(question, context).
       let client = LightspeedClient_init url 30 s in
       case query client question (Some context) of
         Inl e \<Rightarrow> Inl (Propagated e)
       | Inr analysis \<Rightarrow>
           and_then (extract_insights now analysis) (\<lambda>insights.
             decide alert insights))"

text \<open>
  What the caller reads first in a result, \<^verbatim>\<open>result['action']\<close>; and the exact value
  of a number (an integer, a boolean or a finite float).
\<close>

definition action_of :: "exn + decision \<Rightarrow> pyval option" where
  "action_of r = (case r of Inl e \<Rightarrow> None | Inr d \<Rightarrow> map_of d ''action'')"

fun exact_value :: "pyval \<Rightarrow> rat option" where
  "exact_value (PBool b) = Some (if b then 1 else 0)"
| "exact_value (PInt i) = Some (of_int i)"
| "exact_value (PFloat (Finite q)) = Some q"
| "exact_value v = None"


text \<open>The sample alert of \<^verbatim>\<open>main\<close> (lines 142 to 153).\<close>

definition sample_labels :: "(string \<times> pyval) list" where
  "sample_labels =
     [(''alertname'', PStr ''HighPodCPU''),
      (''namespace'', PStr ''self-healing-platform''),
      (''pod'', PStr ''coordination-engine-0''),
      (''severity'', PStr ''warning'')]"

definition sample_annotations :: "(string \<times> pyval) list" where
  "sample_annotations =
     [(''description'',
         PStr ''Pod coordination-engine-0 in namespace self-healing-platform is using 85% CPU''),
      (''summary'', PStr ''High CPU usage detected'')]"

definition sample_alert :: alert where
  "sample_alert =
     [(''labels'', PDict sample_labels), (''annotations'', PDict sample_annotations)]"


section \<open>Basic facts\<close>

lemma and_then_Inr [simp]: "and_then (Inr v) f = f v"
  by (simp add: and_then_def)

lemma and_then_Inl [simp]: "and_then (Inl e) f = Inl e"
  by (simp add: and_then_def)

lemma subscript_Some: "map_of d k = Some v \<Longrightarrow> subscript d k = Inr v"
  by (simp add: subscript_def)

lemma py_subscript_Inr:
  "py_subscript v k = Inr x \<longleftrightarrow> (\<exists>d. v = PDict d \<and> map_of d k = Some x)"
  by (cases v) (auto simp add: subscript_def split: option.splits)

lemma py_gt_exact: "exact_value v = Some q \<Longrightarrow> py_gt v x = Inr (q > x)"
  by (induction v rule: exact_value.induct) auto

text \<open>
  The constant \<open>float_0_8\<close> is a double in the binade of \<open>1/2\<close> (a multiple of
  \<open>2\<^sup>-\<^sup>5\<^sup>3\<close>) and lies within half a unit in the last place of four fifths.
\<close>

lemma float_0_8_double:
  "float_0_8 = 7205759403792794 / 2 ^ 53 \<and> \<bar>float_0_8 - 4 / 5\<bar> < 1 / 2 ^ 54"
  by (simp add: float_0_8_def)

lemma py_str_int_503: "py_str_int 503 = ''503''"
  by (simp add: py_str_int_def str_nat.simps digit_char_def)


section \<open>The decision (lines 88 to 112)\<close>

lemma decide_error:
  "map_of ins ''status'' = Some (PStr ''error'') \<Longrightarrow> map_of ins ''message'' = Some m \<Longrightarrow>
   decide alert ins = Inr [(''action'', PStr ''error''), (''message'', m)]"
  by (simp add: decide_def subscript_Some)

lemma decide_success:
  assumes "map_of alert ''labels'' = Some (PDict labels)"
    and "map_of labels ''alertname'' = Some name"
    and "map_of ins ''status'' = Some st" "st \<noteq> PStr ''error''"
    and "map_of ins ''confidence'' = Some cv" "exact_value cv = Some q"
    and "map_of ins ''recommendations'' = Some recs" "map_of ins ''answer'' = Some ans"
  shows "decide alert ins =
    Inr (if q > float_0_8 then
           [(''action'', PStr ''auto_remediate''), (''alert'', name), (''confidence'', cv),
            (''recommendations'', recs), (''analysis'', ans)]
         else
           [(''action'', PStr ''escalate''), (''alert'', name), (''confidence'', cv),
            (''analysis'', PDict ins),
            (''reason'', PStr ''Low confidence in automated remediation'')])"
  using assms by (simp add: decide_def subscript_Some subscript_def py_gt_exact)

text \<open>
  C1 (as amended: the threshold is the literal 0.8 of line 95, not a parameter). For an
  alert that has a name and an insight with status \<^verbatim>\<open>success\<close> whose confidence is a
  number \<open>c\<close> (an integer or a finite float), the action is \<^verbatim>\<open>auto_remediate\<close>
  exactly when \<open>c > 0.8\<close> and \<^verbatim>\<open>escalate\<close> exactly when \<open>c \<le> 0.8\<close>; a confidence
  equal to 0.8 escalates, the comparison being strict. For an insight with status
  \<^verbatim>\<open>error\<close> the action is \<^verbatim>\<open>error\<close>, whatever its confidence entry is.
\<close>

theorem decide_threshold_is_0_8:
  "(map_of alert ''labels'' = Some (PDict labels) \<and> map_of labels ''alertname'' = Some name \<and>
    map_of ins ''status'' = Some (PStr ''success'') \<and>
    map_of ins ''confidence'' = Some cv \<and> exact_value cv = Some c \<and>
    map_of ins ''recommendations'' = Some recs \<and> map_of ins ''answer'' = Some ans \<longrightarrow>
      (action_of (decide alert ins) = Some (PStr ''auto_remediate'') \<longleftrightarrow> c > float_0_8) \<and>
      (action_of (decide alert ins) = Some (PStr ''escalate'') \<longleftrightarrow> c \<le> float_0_8) \<and>
      (c = float_0_8 \<longrightarrow> action_of (decide alert ins) = Some (PStr ''escalate''))) \<and>
   (map_of ins' ''status'' = Some (PStr ''error'') \<and> map_of ins' ''message'' = Some m \<longrightarrow>
      action_of (decide alert' ins') = Some (PStr ''error'') \<and>
      (\<forall>v. action_of (decide alert' ((''confidence'', v) # ins')) = Some (PStr ''error'')))"
proof (intro conjI impI)
  assume a: "map_of alert ''labels'' = Some (PDict labels) \<and> map_of labels ''alertname'' = Some name \<and>
    map_of ins ''status'' = Some (PStr ''success'') \<and>
    map_of ins ''confidence'' = Some cv \<and> exact_value cv = Some c \<and>
    map_of ins ''recommendations'' = Some recs \<and> map_of ins ''answer'' = Some ans"
  then have d: "decide alert ins =
    Inr (if c > float_0_8 then
           [(''action'', PStr ''auto_remediate''), (''alert'', name), (''confidence'', cv),
            (''recommendations'', recs), (''analysis'', ans)]
         else
           [(''action'', PStr ''escalate''), (''alert'', name), (''confidence'', cv),
            (''analysis'', PDict ins),
            (''reason'', PStr ''Low confidence in automated remediation'')])"
    using decide_success [of alert labels name ins "PStr ''success''" cv c recs ans] by simp
  show "action_of (decide alert ins) = Some (PStr ''auto_remediate'') \<longleftrightarrow> c > float_0_8"
    by (simp add: d action_of_def)
  show "action_of (decide alert ins) = Some (PStr ''escalate'') \<longleftrightarrow> c \<le> float_0_8"
    by (auto simp add: d action_of_def)
  show "action_of (decide alert ins) = Some (PStr ''escalate'')" if "c = float_0_8"
    using that by (simp add: d action_of_def)
next
  assume e: "map_of ins' ''status'' = Some (PStr ''error'') \<and> map_of ins' ''message'' = Some m"
  then show "action_of (decide alert' ins') = Some (PStr ''error'')"
    by (simp add: decide_error [where m = m] action_of_def)
  from e show "\<forall>v. action_of (decide alert' ((''confidence'', v) # ins')) = Some (PStr ''error'')"
    by (simp add: decide_error [where m = m] action_of_def)
qed

text \<open>
  The theorem at the boundary: the sample alert with a confidence that is exactly the
  double 0.8 escalates; and an error insight that also holds a confidence of 0.95 gives
  the action \<^verbatim>\<open>error\<close>.
\<close>

theorem decide_threshold_is_0_8_witness:
  "exact_value (PFloat (Finite float_0_8)) = Some float_0_8 \<and>
   action_of (decide sample_alert
     [(''status'', PStr ''success''), (''confidence'', PFloat (Finite float_0_8)),
      (''recommendations'', PList []), (''answer'', PStr ''Restart pod'')])
     = Some (PStr ''escalate'') \<and>
   action_of (decide sample_alert
     [(''confidence'', PFloat (Finite (19 / 20))),
      (''status'', PStr ''error''), (''message'', PStr ''HTTP 503: Service Unavailable'')])
     = Some (PStr ''error'')"
  using decide_threshold_is_0_8
    [where alert = sample_alert
       and labels = sample_labels
       and name = "PStr ''HighPodCPU''"
       and ins = "[(''status'', PStr ''success''), (''confidence'', PFloat (Finite float_0_8)),
                   (''recommendations'', PList []), (''answer'', PStr ''Restart pod'')]"
       and cv = "PFloat (Finite float_0_8)" and c = float_0_8
       and recs = "PList []" and ans = "PStr ''Restart pod''"
       and ins' = "[(''status'', PStr ''error''),
                    (''message'', PStr ''HTTP 503: Service Unavailable'')]"
       and m = "PStr ''HTTP 503: Service Unavailable''"
       and alert' = sample_alert]
  by (simp add: sample_alert_def sample_labels_def)

text \<open>
  The claim as stated, for every threshold \<open>t\<close>, fails: with \<open>t = 15/16\<close> and a confidence
  of \<open>7/8\<close>, which is not above \<open>t\<close>, the code still decides to auto-remediate.
\<close>

theorem decide_above_other_threshold_counterexample:
  "action_of (decide sample_alert
     [(''status'', PStr ''success''), (''confidence'', PFloat (Finite (7 / 8))),
      (''recommendations'', PList []), (''answer'', PStr ''Restart pod'')])
     = Some (PStr ''auto_remediate'') \<and>
   \<not> ((7 / 8 :: rat) > 15 / 16)"
  by (simp add: decide_def subscript_def sample_alert_def sample_labels_def action_of_def
      float_0_8_def)

text \<open>
  C6. For an insight with status \<^verbatim>\<open>error\<close> the decision is the dictionary of the
  action \<^verbatim>\<open>error\<close> and the message alone: it has no confidence entry, and it is the
  same whatever confidence entry the insight is given, so no confidence is consulted.
\<close>

theorem decide_error_ignores_confidence:
  assumes "map_of ins ''status'' = Some (PStr ''error'')"
    and "map_of ins ''message'' = Some m"
  shows "decide alert ins = Inr [(''action'', PStr ''error''), (''message'', m)] \<and>
         map_of [(''action'', PStr ''error''), (''message'', m)] ''confidence'' = None \<and>
         (\<forall>v. decide alert ((''confidence'', v) # ins) = decide alert ins)"
  using assms by (simp add: decide_error [where m = m])

theorem decide_error_ignores_confidence_witness:
  "decide sample_alert
     [(''status'', PStr ''error''), (''message'', PStr ''Request failed: Read timed out.'')]
     = Inr [(''action'', PStr ''error''),
            (''message'', PStr ''Request failed: Read timed out.'')] \<and>
   decide sample_alert
     [(''confidence'', PFloat (Finite (19 / 20))),
      (''status'', PStr ''error''), (''message'', PStr ''Request failed: Read timed out.'')]
     = Inr [(''action'', PStr ''error''),
            (''message'', PStr ''Request failed: Read timed out.'')]"
  using decide_error_ignores_confidence
    [of "[(''status'', PStr ''error''), (''message'', PStr ''Request failed: Read timed out.'')]"
        "PStr ''Request failed: Read timed out.''" sample_alert]
  by simp

text \<open>
  C9 (as amended: there is no threshold parameter). The comparison is against the
  literal 0.8 of line 95 alone: a threshold \<open>t\<close> describes the decisions between
  \<^verbatim>\<open>auto_remediate\<close> and the rest, for every finite confidence, exactly when \<open>t\<close> is
  that literal.
\<close>

theorem decide_only_threshold_is_0_8:
  assumes "map_of alert ''labels'' = Some (PDict labels)"
    and "map_of labels ''alertname'' = Some name"
    and "map_of ins ''status'' = Some (PStr ''success'')"
    and "map_of ins ''recommendations'' = Some recs" and "map_of ins ''answer'' = Some ans"
  shows "(\<forall>c. action_of (decide alert ((''confidence'', PFloat (Finite c)) # ins))
                 = Some (PStr ''auto_remediate'') \<longleftrightarrow> c > t)
         \<longleftrightarrow> t = float_0_8"
proof -
  have act: "action_of (decide alert ((''confidence'', PFloat (Finite c)) # ins))
               = Some (PStr ''auto_remediate'') \<longleftrightarrow> c > float_0_8" for c
    using assms
      decide_success [of alert labels name "(''confidence'', PFloat (Finite c)) # ins"
        "PStr ''success''" "PFloat (Finite c)" c recs ans]
    by (simp add: action_of_def)
  show ?thesis
  proof
    assume h: "\<forall>c. action_of (decide alert ((''confidence'', PFloat (Finite c)) # ins))
                 = Some (PStr ''auto_remediate'') \<longleftrightarrow> c > t"
    from h act have "t > float_0_8 \<longleftrightarrow> t > t" by blast
    moreover from h act have "float_0_8 > float_0_8 \<longleftrightarrow> float_0_8 > t" by blast
    ultimately show "t = float_0_8" by simp
  next
    assume "t = float_0_8"
    with act show "\<forall>c. action_of (decide alert ((''confidence'', PFloat (Finite c)) # ins))
                 = Some (PStr ''auto_remediate'') \<longleftrightarrow> c > t" by simp
  qed
qed

text \<open>
  On the sample alert: a threshold of one half does not describe the decisions, the
  literal 0.8 does.
\<close>

theorem decide_only_threshold_is_0_8_witness:
  "\<not> (\<forall>c. action_of (decide sample_alert
              ((''confidence'', PFloat (Finite c)) #
               [(''status'', PStr ''success''), (''recommendations'', PList []),
                (''answer'', PStr ''Restart pod'')]))
            = Some (PStr ''auto_remediate'') \<longleftrightarrow> c > 1 / 2) \<and>
   (\<forall>c. action_of (decide sample_alert
              ((''confidence'', PFloat (Finite c)) #
               [(''status'', PStr ''success''), (''recommendations'', PList []),
                (''answer'', PStr ''Restart pod'')]))
            = Some (PStr ''auto_remediate'') \<longleftrightarrow> c > float_0_8)"
  using
    decide_only_threshold_is_0_8
      [of sample_alert
          sample_labels
          "PStr ''HighPodCPU''"
          "[(''status'', PStr ''success''), (''recommendations'', PList []),
            (''answer'', PStr ''Restart pod'')]"
          "PList []" "PStr ''Restart pod''" "1 / 2"]
    decide_only_threshold_is_0_8
      [of sample_alert
          sample_labels
          "PStr ''HighPodCPU''"
          "[(''status'', PStr ''success''), (''recommendations'', PList []),
            (''answer'', PStr ''Restart pod'')]"
          "PList []" "PStr ''Restart pod''" float_0_8]
  by (simp add: sample_alert_def sample_labels_def float_0_8_def)

text \<open>
  A caller who wants a threshold of one half cannot have it: a confidence of three
  quarters is above one half, and the code escalates.
\<close>

theorem decide_threshold_not_injected_counterexample:
  "action_of (decide sample_alert
     [(''status'', PStr ''success''), (''confidence'', PFloat (Finite (3 / 4))),
      (''recommendations'', PList []), (''answer'', PStr ''Unclear'')])
     = Some (PStr ''escalate'') \<and>
   (3 / 4 :: rat) > 1 / 2"
  by (simp add: decide_def subscript_def sample_alert_def sample_labels_def action_of_def
      float_0_8_def)


lemma decide_shape:
  assumes "decide alert ins = Inr d"
  shows "(map_of d ''action'' = Some (PStr ''error'') \<and> map_of d ''alert'' = None \<and>
          map_of d ''confidence'' = None) \<or>
         ((map_of d ''action'' = Some (PStr ''auto_remediate'') \<or>
           map_of d ''action'' = Some (PStr ''escalate'')) \<and>
          (\<exists>labels name. map_of alert ''labels'' = Some (PDict labels) \<and>
             map_of labels ''alertname'' = Some name \<and> map_of d ''alert'' = Some name) \<and>
          map_of d ''confidence'' \<noteq> None \<and> map_of d ''confidence'' = map_of ins ''confidence'')"
  using assms
  by (auto simp add: decide_def and_then_def subscript_def py_subscript_Inr
      split: option.splits sum.splits if_splits)

lemma handle_prometheus_alert_decides:
  "handle_prometheus_alert alert url s now fmt = Inr d \<Longrightarrow> \<exists>ins. decide alert ins = Inr d"
  by (auto simp add: handle_prometheus_alert_def and_then_def Let_def
      split: sum.splits prod.splits)

text \<open>
  C8 (as amended: the error decision has no alert name). Every decision, taken from any
  alert and any insight or returned by the whole of \<^verbatim>\<open>handle_prometheus_alert\<close>,
  either has the action \<^verbatim>\<open>error\<close> and then neither an alert name nor a confidence,
  or has the action \<^verbatim>\<open>auto_remediate\<close> or \<^verbatim>\<open>escalate\<close> and then the name of
  the alert and a confidence.
\<close>

theorem decision_carries_alert_unless_error:
  assumes "decide alert ins = Inr d \<or> handle_prometheus_alert alert url s now fmt = Inr d"
  shows "(map_of d ''action'' = Some (PStr ''error'') \<and> map_of d ''alert'' = None \<and>
          map_of d ''confidence'' = None) \<or>
         ((map_of d ''action'' = Some (PStr ''auto_remediate'') \<or>
           map_of d ''action'' = Some (PStr ''escalate'')) \<and>
          (\<exists>labels name. map_of alert ''labels'' = Some (PDict labels) \<and>
             map_of labels ''alertname'' = Some name \<and> map_of d ''alert'' = Some name) \<and>
          map_of d ''confidence'' \<noteq> None)"
proof -
  from assms obtain ins' where "decide alert ins' = Inr d"
    using handle_prometheus_alert_decides by blast
  from decide_shape [OF this] show ?thesis by blast
qed

text \<open>
  Scenario A on the sample alert: a confidence of 0.92 gives the decision to
  auto-remediate, with the alert name and the confidence in it.
\<close>

theorem decision_carries_alert_unless_error_witness:
  "decide sample_alert
     [(''status'', PStr ''success''), (''timestamp'', PStr ''2024-05-01T12:00:00''),
      (''answer'', PStr ''Restart pod''), (''confidence'', PFloat (Finite (23 / 25))),
      (''sources'', PList []), (''recommendations'', PList [])]
   = Inr [(''action'', PStr ''auto_remediate''), (''alert'', PStr ''HighPodCPU''),
          (''confidence'', PFloat (Finite (23 / 25))), (''recommendations'', PList []),
          (''analysis'', PStr ''Restart pod'')] \<and>
   map_of [(''action'', PStr ''auto_remediate''), (''alert'', PStr ''HighPodCPU''),
           (''confidence'', PFloat (Finite (23 / 25))), (''recommendations'', PList []),
           (''analysis'', PStr ''Restart pod'')] ''alert'' = Some (PStr ''HighPodCPU'')"
  using decision_carries_alert_unless_error
    [of sample_alert
        "[(''status'', PStr ''success''), (''timestamp'', PStr ''2024-05-01T12:00:00''),
          (''answer'', PStr ''Restart pod''), (''confidence'', PFloat (Finite (23 / 25))),
          (''sources'', PList []), (''recommendations'', PList [])]"
        "[(''action'', PStr ''auto_remediate''), (''alert'', PStr ''HighPodCPU''),
          (''confidence'', PFloat (Finite (23 / 25))), (''recommendations'', PList []),
          (''analysis'', PStr ''Restart pod'')]"]
  by (simp add: decide_def subscript_def sample_alert_def sample_labels_def float_0_8_def)

text \<open>
  Scenario D on the sample alert: the request times out, and the decision returned is
  the action and the message, with no alert name.
\<close>

theorem error_decision_has_no_alert_counterexample:
  "handle_prometheus_alert sample_alert ''http://ols-server:8000''
     (\<lambda>url payload t. Inl (RequestException ''Read timed out.'')) ''2024-05-01T12:00:00''
     (\<lambda>v. [])
   = Inr [(''action'', PStr ''error''),
          (''message'', PStr ''Request failed: Read timed out.'')] \<and>
   map_of [(''action'', PStr ''error''),
           (''message'', PStr ''Request failed: Read timed out.'')] ''alert'' = None"
  by (simp add: handle_prometheus_alert_def build_query_def build_context_def
      build_question_def py_format_def subscript_def get_default_def sample_alert_def
      sample_labels_def sample_annotations_def
      query_def query_try_def post_query_def LightspeedClient_init_def error_response_def
      extract_insights_def decide_def)


section \<open>The insights (\<^verbatim>\<open>extract_insights\<close>)\<close>

text \<open>
  C2. On every response dictionary and at every reading of the clock
  \<^verbatim>\<open>extract_insights\<close> returns: with the key \<^verbatim>\<open>error\<close> in the response, the
  insight of the status \<^verbatim>\<open>error\<close> and the message, and no other entry; without it,
  the insight of the status \<^verbatim>\<open>success\<close>, in which an absent answer is the empty
  string, an absent confidence is 0.0, and absent sources and recommendations are the
  empty list.
\<close>

theorem extract_insights_total:
  "(\<exists>i. extract_insights now (PDict d) = Inr i) \<and>
   extract_insights now (PDict d) =
     (case map_of d ''error'' of
        Some m \<Rightarrow> Inr [(''status'', PStr ''error''), (''message'', m)]
      | None \<Rightarrow>
          Inr [(''status'', PStr ''success''),
               (''timestamp'', PStr now),
               (''answer'', case map_of d ''answer'' of None \<Rightarrow> PStr '''' | Some a \<Rightarrow> a),
               (''confidence'',
                  case map_of d ''confidence'' of None \<Rightarrow> PFloat (Finite 0) | Some c \<Rightarrow> c),
               (''sources'', case map_of d ''sources'' of None \<Rightarrow> PList [] | Some s \<Rightarrow> s),
               (''recommendations'',
                  case map_of d ''recommendations'' of None \<Rightarrow> PList [] | Some r \<Rightarrow> r)])"
  by (simp add: extract_insights_def subscript_def get_default_def split: option.splits)

text \<open>
  C7 (as amended: the time stamp is read from the clock). Two calls on the same
  response, at any two readings of the clock, raise the same exception or return
  insights that are equal in every entry but \<^verbatim>\<open>timestamp\<close>.
\<close>

theorem extract_insights_deterministic_except_timestamp:
  "map_sum id (filter (\<lambda>kv. fst kv \<noteq> ''timestamp'')) (extract_insights now response) =
   map_sum id (filter (\<lambda>kv. fst kv \<noteq> ''timestamp'')) (extract_insights now' response)"
  by (cases response)
     (simp_all add: extract_insights_def and_then_def split: sum.splits)

text \<open>The same response, one second apart: the two insights differ.\<close>

theorem extract_insights_depends_on_clock_counterexample:
  "extract_insights ''2024-05-01T12:00:00'' (PDict [(''answer'', PStr ''Restart pod'')]) \<noteq>
   extract_insights ''2024-05-01T12:00:01'' (PDict [(''answer'', PStr ''Restart pod'')])"
  by (simp add: extract_insights_def get_default_def)

text \<open>
  C10. A response dictionary that has the key \<^verbatim>\<open>error\<close> yields the insight with
  status \<^verbatim>\<open>error\<close> and that message and nothing else, whatever else the response
  holds (an answer, a confidence, sources, recommendations) and whatever the clock reads:
  the error check comes before every success field.
\<close>

theorem extract_insights_error_precedence:
  "map_of d ''error'' = Some m \<Longrightarrow>
   extract_insights now (PDict d) = Inr [(''status'', PStr ''error''), (''message'', m)]"
  by (simp add: extract_insights_def subscript_def)

theorem extract_insights_error_precedence_witness:
  "map_of [(''answer'', PStr ''Restart pod''), (''confidence'', PFloat (Finite (23 / 25))),
           (''sources'', PList [PStr ''kb'']), (''recommendations'', PList [PStr ''restart'']),
           (''error'', PStr ''boom'')] ''error'' = Some (PStr ''boom'') \<and>
   extract_insights ''2024-05-01T12:00:00''
     (PDict [(''answer'', PStr ''Restart pod''), (''confidence'', PFloat (Finite (23 / 25))),
             (''sources'', PList [PStr ''kb'']), (''recommendations'', PList [PStr ''restart'']),
             (''error'', PStr ''boom'')])
   = Inr [(''status'', PStr ''error''), (''message'', PStr ''boom'')]"
  using extract_insights_error_precedence
    [of "[(''answer'', PStr ''Restart pod''), (''confidence'', PFloat (Finite (23 / 25))),
          (''sources'', PList [PStr ''kb'']), (''recommendations'', PList [PStr ''restart'']),
          (''error'', PStr ''boom'')]" "PStr ''boom''" "''2024-05-01T12:00:00''"]
  by simp


section \<open>The question and the context (lines 70 to 83)\<close>

lemma build_context_cases:
  "build_context alert =
     (case map_of alert ''labels'' of
        None \<Rightarrow> Inl (KeyError ''labels'')
      | Some (PDict labels) \<Rightarrow>
          (case map_of labels ''alertname'' of
             None \<Rightarrow> Inl (KeyError ''alertname'')
           | Some name \<Rightarrow>
               (case map_of alert ''annotations'' of
                  None \<Rightarrow> Inl (KeyError ''annotations'')
                | Some (PDict annotations) \<Rightarrow>
                    Inr [(''alert_name'', name),
                         (''namespace'', get_default labels ''namespace'' (PStr ''default'')),
                         (''severity'', get_default labels ''severity'' (PStr ''warning'')),
                         (''description'', get_default annotations ''description'' (PStr ''''))]
                | Some _ \<Rightarrow> Inl AttributeError))
      | Some _ \<Rightarrow> Inl TypeError)"
  by (simp add: build_context_def subscript_def split: option.splits pyval.splits)

lemma build_query_cases:
  "build_query alert fmt =
     (case build_context alert of
        Inl e \<Rightarrow> Inl e
      | Inr context \<Rightarrow>
          (case map_of context ''description'' of
             None \<Rightarrow> Inl (KeyError ''description'')
           | Some description \<Rightarrow>
               Inr (''Analyze this alert and suggest remediation: '' @ py_format fmt description,
                    context)))"
  by (simp add: build_query_def build_question_def subscript_def and_then_def
      split: sum.splits option.splits)

text \<open>
  C4 (as amended: the name and the two dictionaries are required). The question and the
  context are returned exactly for the alerts whose \<^verbatim>\<open>labels\<close> entry is a dictionary
  with the key \<^verbatim>\<open>alertname\<close> and whose \<^verbatim>\<open>annotations\<close> entry is a dictionary. Every
  other alert is rejected: with a \<^verbatim>\<open>KeyError\<close> when \<^verbatim>\<open>labels\<close>, \<^verbatim>\<open>alertname\<close> or
  \<^verbatim>\<open>annotations\<close> is missing, with a \<^verbatim>\<open>TypeError\<close> when \<^verbatim>\<open>labels\<close> is not a
  dictionary, with an \<^verbatim>\<open>AttributeError\<close> when \<^verbatim>\<open>annotations\<close> is not a dictionary.
  Where the call returns, a missing namespace is \<^verbatim>\<open>default\<close>, a missing severity is
  \<^verbatim>\<open>warning\<close> and a missing description is the empty string.
\<close>

theorem build_query_returns_iff_required_keys:
  "((\<exists>r. build_query alert fmt = Inr r) \<longleftrightarrow>
      (\<exists>labels annotations.
         map_of alert ''labels'' = Some (PDict labels) \<and> map_of labels ''alertname'' \<noteq> None \<and>
         map_of alert ''annotations'' = Some (PDict annotations))) \<and>
   (map_of alert ''labels'' = None \<longrightarrow> build_query alert fmt = Inl (KeyError ''labels'')) \<and>
   (\<forall>v. map_of alert ''labels'' = Some v \<and> (\<forall>labels. v \<noteq> PDict labels) \<longrightarrow>
      build_query alert fmt = Inl TypeError) \<and>
   (\<forall>labels. map_of alert ''labels'' = Some (PDict labels) \<and>
      map_of labels ''alertname'' = None \<longrightarrow>
      build_query alert fmt = Inl (KeyError ''alertname'')) \<and>
   (\<forall>labels. map_of alert ''labels'' = Some (PDict labels) \<and>
      map_of labels ''alertname'' \<noteq> None \<and> map_of alert ''annotations'' = None \<longrightarrow>
      build_query alert fmt = Inl (KeyError ''annotations'')) \<and>
   (\<forall>labels v. map_of alert ''labels'' = Some (PDict labels) \<and>
      map_of labels ''alertname'' \<noteq> None \<and>
      map_of alert ''annotations'' = Some v \<and> (\<forall>annotations. v \<noteq> PDict annotations) \<longrightarrow>
      build_query alert fmt = Inl AttributeError) \<and>
   (\<forall>question context labels annotations.
      build_query alert fmt = Inr (question, context) \<and>
      map_of alert ''labels'' = Some (PDict labels) \<and>
      map_of alert ''annotations'' = Some (PDict annotations) \<longrightarrow>
        (map_of labels ''namespace'' = None \<longrightarrow>
           map_of context ''namespace'' = Some (PStr ''default'')) \<and>
        (map_of labels ''severity'' = None \<longrightarrow>
           map_of context ''severity'' = Some (PStr ''warning'')) \<and>
        (map_of annotations ''description'' = None \<longrightarrow>
           map_of context ''description'' = Some (PStr '''') \<and>
           question = ''Analyze this alert and suggest remediation: ''))"
proof (intro conjI allI impI)
  show "(\<exists>r. build_query alert fmt = Inr r) \<longleftrightarrow>
      (\<exists>labels annotations.
         map_of alert ''labels'' = Some (PDict labels) \<and> map_of labels ''alertname'' \<noteq> None \<and>
         map_of alert ''annotations'' = Some (PDict annotations))"
    by (auto simp add: build_query_cases build_context_cases
        split: option.splits pyval.splits)
next
  assume "map_of alert ''labels'' = None"
  then show "build_query alert fmt = Inl (KeyError ''labels'')"
    by (simp add: build_query_cases build_context_cases)
next
  fix v
  assume "map_of alert ''labels'' = Some v \<and> (\<forall>labels. v \<noteq> PDict labels)"
  then show "build_query alert fmt = Inl TypeError"
    by (cases v) (simp_all add: build_query_cases build_context_cases)
next
  fix labels
  assume "map_of alert ''labels'' = Some (PDict labels) \<and> map_of labels ''alertname'' = None"
  then show "build_query alert fmt = Inl (KeyError ''alertname'')"
    by (simp add: build_query_cases build_context_cases)
next
  fix labels
  assume "map_of alert ''labels'' = Some (PDict labels) \<and>
      map_of labels ''alertname'' \<noteq> None \<and> map_of alert ''annotations'' = None"
  then show "build_query alert fmt = Inl (KeyError ''annotations'')"
    by (auto simp add: build_query_cases build_context_cases)
next
  fix labels v
  assume "map_of alert ''labels'' = Some (PDict labels) \<and>
      map_of labels ''alertname'' \<noteq> None \<and>
      map_of alert ''annotations'' = Some v \<and> (\<forall>annotations. v \<noteq> PDict annotations)"
  then show "build_query alert fmt = Inl AttributeError"
    by (cases v) (auto simp add: build_query_cases build_context_cases)
next
  fix question ctx labels annotations
  assume a: "build_query alert fmt = Inr (question, ctx) \<and>
      map_of alert ''labels'' = Some (PDict labels) \<and>
      map_of alert ''annotations'' = Some (PDict annotations)"
  {
    assume "map_of labels ''namespace'' = None"
    with a show "map_of ctx ''namespace'' = Some (PStr ''default'')"
      by (auto simp add: build_query_cases build_context_cases get_default_def
          split: option.splits)
  }
  {
    assume "map_of labels ''severity'' = None"
    with a show "map_of ctx ''severity'' = Some (PStr ''warning'')"
      by (auto simp add: build_query_cases build_context_cases get_default_def
          split: option.splits)
  }
  {
    assume "map_of annotations ''description'' = None"
    with a show "map_of ctx ''description'' = Some (PStr '''')"
      and "question = ''Analyze this alert and suggest remediation: ''"
      by (auto simp add: build_query_cases build_context_cases get_default_def py_format_def
          split: option.splits)
  }
qed

text \<open>
  An alert with a name and nothing else in its two dictionaries: all three fall back.
  An alert whose labels are \<^verbatim>\<open>None\<close>, and a named alert whose annotations are
  \<^verbatim>\<open>None\<close>: both are rejected.
\<close>

theorem build_query_returns_iff_required_keys_witness:
  "(\<exists>question context.
     build_query [(''labels'', PDict [(''alertname'', PStr ''HighPodCPU'')]),
                  (''annotations'', PDict [])] (\<lambda>v. [])
       = Inr (question, context) \<and>
     map_of context ''namespace'' = Some (PStr ''default'') \<and>
     map_of context ''severity'' = Some (PStr ''warning'') \<and>
     map_of context ''description'' = Some (PStr '''') \<and>
     question = ''Analyze this alert and suggest remediation: '') \<and>
   build_query [(''labels'', PNone), (''annotations'', PDict [])] (\<lambda>v. []) = Inl TypeError \<and>
   build_query [(''labels'', PDict [(''alertname'', PStr ''HighPodCPU'')]),
                (''annotations'', PNone)] (\<lambda>v. []) = Inl AttributeError"
  using
    build_query_returns_iff_required_keys
      [of "[(''labels'', PDict [(''alertname'', PStr ''HighPodCPU'')]),
            (''annotations'', PDict [])]" "\<lambda>v. []"]
    build_query_returns_iff_required_keys
      [of "[(''labels'', PNone), (''annotations'', PDict [])]" "\<lambda>v. []"]
    build_query_returns_iff_required_keys
      [of "[(''labels'', PDict [(''alertname'', PStr ''HighPodCPU'')]),
            (''annotations'', PNone)]" "\<lambda>v. []"]
  by auto

text \<open>An alert without a name is rejected.\<close>

theorem build_query_rejects_missing_alertname_counterexample:
  "build_query [(''labels'', PDict [(''severity'', PStr ''critical'')]),
                (''annotations'', PDict [])] (\<lambda>v. [])
     = Inl (KeyError ''alertname'')"
  by (simp add: build_query_def build_context_def subscript_def)

text \<open>
  C5 (as amended: for the alerts that are not rejected). For every alert whose
  \<^verbatim>\<open>labels\<close> entry is a dictionary with the key \<^verbatim>\<open>alertname\<close> and whose
  \<^verbatim>\<open>annotations\<close> entry is a dictionary, the context is exactly the four entries
  \<^verbatim>\<open>alert_name\<close>, \<^verbatim>\<open>namespace\<close> (or \<^verbatim>\<open>default\<close>), \<^verbatim>\<open>severity\<close> (or
  \<^verbatim>\<open>warning\<close>) and \<^verbatim>\<open>description\<close> (or the empty string), and the question is the
  fixed prefix followed by the description: the description itself when it is a string,
  nothing when it is missing, its formatted text otherwise.
\<close>

theorem build_query_exact:
  assumes "map_of alert ''labels'' = Some (PDict labels)"
    and "map_of labels ''alertname'' = Some name"
    and "map_of alert ''annotations'' = Some (PDict annotations)"
  shows "build_query alert fmt =
     Inr (''Analyze this alert and suggest remediation: '' @
            (case map_of annotations ''description'' of
               None \<Rightarrow> '''' | Some (PStr d) \<Rightarrow> d | Some v \<Rightarrow> fmt v),
          [(''alert_name'', name),
           (''namespace'',
              case map_of labels ''namespace'' of None \<Rightarrow> PStr ''default'' | Some n \<Rightarrow> n),
           (''severity'',
              case map_of labels ''severity'' of None \<Rightarrow> PStr ''warning'' | Some s \<Rightarrow> s),
           (''description'',
              case map_of annotations ''description'' of None \<Rightarrow> PStr '''' | Some d \<Rightarrow> d)])"
  using assms
  by (simp add: build_query_cases build_context_cases get_default_def py_format_def
      split: option.splits pyval.splits)

text \<open>
  The sample alert, which has all four fields; and an alert with a name, a severity
  and an empty annotations dictionary, where the namespace and the description fall back.
\<close>

theorem build_query_exact_witness:
  "build_query sample_alert (\<lambda>v. []) =
     Inr (''Analyze this alert and suggest remediation: Pod coordination-engine-0 in namespace self-healing-platform is using 85% CPU'',
          [(''alert_name'', PStr ''HighPodCPU''),
           (''namespace'', PStr ''self-healing-platform''),
           (''severity'', PStr ''warning''),
           (''description'',
              PStr ''Pod coordination-engine-0 in namespace self-healing-platform is using 85% CPU'')]) \<and>
   build_query [(''labels'', PDict [(''alertname'', PStr ''PodCrashLooping''),
                                    (''severity'', PStr ''critical'')]),
                (''annotations'', PDict [])] (\<lambda>v. []) =
     Inr (''Analyze this alert and suggest remediation: '',
          [(''alert_name'', PStr ''PodCrashLooping''),
           (''namespace'', PStr ''default''),
           (''severity'', PStr ''critical''),
           (''description'', PStr '''')])"
  using
    build_query_exact [of sample_alert sample_labels "PStr ''HighPodCPU''" sample_annotations
      "\<lambda>v. []"]
    build_query_exact
      [of "[(''labels'', PDict [(''alertname'', PStr ''PodCrashLooping''),
                                (''severity'', PStr ''critical'')]),
            (''annotations'', PDict [])]"
          "[(''alertname'', PStr ''PodCrashLooping''), (''severity'', PStr ''critical'')]"
          "PStr ''PodCrashLooping''" "[]" "\<lambda>v. []"]
  by (simp add: sample_alert_def sample_labels_def sample_annotations_def)

text \<open>
  The claim as stated, for every alert, fails: a named alert that has no annotations
  gets no context with an empty description, it is rejected.
\<close>

theorem build_query_rejects_missing_annotations_counterexample:
  "build_query [(''labels'', PDict [(''alertname'', PStr ''HighPodCPU''),
                                    (''namespace'', PStr ''self-healing-platform'')])]
     (\<lambda>v. [])
     = Inl (KeyError ''annotations'')"
  by (simp add: build_query_def build_context_def subscript_def)


section \<open>The client (\<^verbatim>\<open>LightspeedClient.query\<close>)\<close>

text \<open>
  C3. \<^verbatim>\<open>query\<close> always returns a value, for every client, question and context and
  whatever the session does. An exception of the request (a refused connection, a failed
  name lookup, a timeout) and any other exception raised by the post or by the decoding
  of the body become the dictionary of the key \<^verbatim>\<open>error\<close> alone; a status other than
  200 (so every status outside 2xx) becomes the error message that holds the status code
  and the body text; only a status of 200 with a body that decodes is passed on.
\<close>

theorem query_never_raises:
  "(\<exists>v. query self question context = Inr v) \<and>
   (\<forall>m. post_query self question context = Inl (RequestException m) \<longrightarrow>
      query self question context = Inr (error_response (''Request failed: '' @ m))) \<and>
   (\<forall>m. post_query self question context = Inl (OtherException m) \<longrightarrow>
      query self question context = Inr (error_response (''Unexpected error: '' @ m))) \<and>
   (\<forall>r. post_query self question context = Inr r \<and> status_code r \<noteq> 200 \<longrightarrow>
      query self question context =
        Inr (error_response
          (''HTTP '' @ py_str_int (status_code r) @ '': '' @ response_text r))) \<and>
   (\<forall>r m. post_query self question context = Inr r \<and> status_code r = 200 \<and>
      response_json r = Inl (RequestException m) \<longrightarrow>
      query self question context = Inr (error_response (''Request failed: '' @ m))) \<and>
   (\<forall>r m. post_query self question context = Inr r \<and> status_code r = 200 \<and>
      response_json r = Inl (OtherException m) \<longrightarrow>
      query self question context = Inr (error_response (''Unexpected error: '' @ m))) \<and>
   (\<forall>r v. post_query self question context = Inr r \<and> status_code r = 200 \<and>
      response_json r = Inr v \<longrightarrow>
      query self question context = Inr v)"
  by (auto simp add: query_def query_try_def split: sum.splits http_exn.splits)

text \<open>
  Three sessions: one that times out, one that answers 503, and one that answers 200
  with a body that is not JSON.
\<close>

theorem query_never_raises_witness:
  "query (LightspeedClient_init ''http://ols-server:8000/'' 30
            (\<lambda>url payload t. Inl (RequestException ''Read timed out.'')))
         ''What is the cluster health?'' None
     = Inr (PDict [(''error'', PStr ''Request failed: Read timed out.'')]) \<and>
   query (LightspeedClient_init ''http://ols-server:8000/'' 30
            (\<lambda>url payload t. Inr \<lparr>status_code = 503, response_text = ''Service Unavailable'',
                                    response_json = Inl (RequestException ''Expecting value'')\<rparr>))
         ''What is the cluster health?'' None
     = Inr (PDict [(''error'', PStr ''HTTP 503: Service Unavailable'')]) \<and>
   query (LightspeedClient_init ''http://ols-server:8000/'' 30
            (\<lambda>url payload t. Inr \<lparr>status_code = 200, response_text = ''<html>'',
                                    response_json = Inl (RequestException ''Expecting value'')\<rparr>))
         ''What is the cluster health?'' None
     = Inr (PDict [(''error'', PStr ''Request failed: Expecting value'')])"
  using
    query_never_raises [of "LightspeedClient_init ''http://ols-server:8000/'' 30
            (\<lambda>url payload t. Inl (RequestException ''Read timed out.''))"
          "''What is the cluster health?''" None]
    query_never_raises [of "LightspeedClient_init ''http://ols-server:8000/'' 30
            (\<lambda>url payload t. Inr \<lparr>status_code = 503, response_text = ''Service Unavailable'',
                                    response_json = Inl (RequestException ''Expecting value'')\<rparr>)"
          "''What is the cluster health?''" None]
    query_never_raises [of "LightspeedClient_init ''http://ols-server:8000/'' 30
            (\<lambda>url payload t. Inr \<lparr>status_code = 200, response_text = ''<html>'',
                                    response_json = Inl (RequestException ''Expecting value'')\<rparr>)"
          "''What is the cluster health?''" None]
  by (simp add: post_query_def LightspeedClient_init_def py_str_int_503 error_response_def)


end
